theory Spec2Isabelle
  imports Main
begin

section \<open>Python strings\<close>

text \<open>
  A Python \<open>str\<close> is modelled as a \<^typ>\<open>string\<close>; every character is read as the code
  point of its byte value, so the model covers the code points below 256.
\<close>

definition py_isspace :: "char \<Rightarrow> bool" where
  "py_isspace c = (let n = (of_char c :: nat) in
     (9 \<le> n \<and> n \<le> 13) \<or> (28 \<le> n \<and> n \<le> 32) \<or> n = 133 \<or> n = 160)"

text \<open>\<open>str.strip()\<close>: leading and trailing whitespace removed.\<close>

definition py_strip :: "string \<Rightarrow> string" where
  "py_strip s = rev (dropWhile py_isspace (rev (dropWhile py_isspace s)))"

text \<open>\<open>str.lower()\<close> on the letters A to Z; other characters are kept.\<close>

definition py_lower :: "string \<Rightarrow> string" where
  "py_lower s = map (\<lambda>c. let n = (of_char c :: nat) in
     if 65 \<le> n \<and> n \<le> 90 then char_of (n + 32) else c) s"

definition startswith :: "string \<Rightarrow> string \<Rightarrow> bool" where
  "startswith s p = (take (length p) s = p)"

definition endswith :: "string \<Rightarrow> string \<Rightarrow> bool" where
  "endswith s p = (length p \<le> length s \<and> drop (length s - length p) s = p)"

text \<open>\<open>os.path.basename\<close> with the POSIX separator.\<close>

definition basename :: "string \<Rightarrow> string" where
  "basename p = rev (takeWhile (\<lambda>c. c \<noteq> CHR ''/'') (rev p))"

text \<open>\<open>str(n)\<close> for a Python integer.\<close>

definition digit_char :: "nat \<Rightarrow> char" where
  "digit_char d = char_of (48 + d)"

fun str_nat :: "nat \<Rightarrow> string" where
  "str_nat n = (if n < 10 then [digit_char n] else str_nat (n div 10) @ [digit_char (n mod 10)])"

declare str_nat.simps [simp del]

definition str_int :: "int \<Rightarrow> string" where
  "str_int i = (if i < 0 then CHR ''-'' # str_nat (nat (- i)) else str_nat (nat i))"

section \<open>The widget registry\<close>

text \<open>
  \<open>add_widget_option\<close> creates one Qt widget per option; the class of the widget is fixed
  by the \<open>widget_type\<close> string, so the two are one constructor here, carrying what the
  widget currently shows: the text of a \<open>QLineEdit\<close> or \<open>QTextEdit\<close>, the checked state of a
  \<open>QCheckBox\<close>, the items and current index of a \<open>QComboBox\<close>, the value of a \<open>QSpinBox\<close>.
  \<open>Unimplemented\<close> is the \<open>QLabel\<close> made for any other type string.
\<close>

datatype widget =
    Lineedit string
  | Textarea string
  | Checkbox bool
  | Combo "string list" int
  | Spin int
  | File string
  | Directory string
  | Unimplemented

text \<open>The values a \<open>default\<close> keyword argument holds in the catalogue.\<close>

datatype py_default = DNone | DBool bool | DInt int

record widget_data =
  flag :: string
  widget :: widget
  default_v :: py_default
  default_text :: string
  default_index :: int

text \<open>
  The keyword arguments of \<open>add_widget_option\<close> that reach the widget or the registry;
  \<open>None\<close> is a keyword that is not given (no items for \<open>items\<close>).
\<close>

record kwargs =
  kw_default :: "py_default option"
  kw_default_text :: "string option"
  kw_default_index :: "int option"
  kw_items :: "string list"
  kw_range :: "(int \<times> int) option"

definition no_kwargs :: kwargs where
  "no_kwargs = \<lparr>kw_default = None, kw_default_text = None, kw_default_index = None,
     kw_items = [], kw_range = None\<rparr>"

fun is_checkbox :: "widget \<Rightarrow> bool" where
  "is_checkbox (Checkbox _) = True"
| "is_checkbox _ = False"

fun is_spin :: "widget \<Rightarrow> bool" where
  "is_spin (Spin _) = True"
| "is_spin _ = False"

fun isChecked :: "widget \<Rightarrow> bool" where
  "isChecked (Checkbox b) = b"
| "isChecked _ = False"

text \<open>The entry \<open>add_widget_option\<close> stores in \<open>widgets_map\<close> under \<open>widget_id\<close>.\<close>

definition add_widget_option :: "string \<Rightarrow> string \<Rightarrow> widget \<Rightarrow> kwargs \<Rightarrow> string \<times> widget_data" where
  "add_widget_option widget_id flg w kw =
     (widget_id,
      \<lparr>flag = flg,
       widget = w,
       default_v = (case kw_default kw of Some v \<Rightarrow> v
                    | None \<Rightarrow> if is_checkbox w then DBool False
                              else if is_spin w then DInt 0 else DNone),
       default_text = (case kw_default_text kw of Some t \<Rightarrow> t | None \<Rightarrow> []),
       default_index = (case kw_default_index kw of Some i \<Rightarrow> i | None \<Rightarrow> - 1)\<rparr>)"

text \<open>Python's \<open>==\<close> between a \<open>bool\<close> or an \<open>int\<close> and a stored default.\<close>

fun py_eq_int :: "int \<Rightarrow> py_default \<Rightarrow> bool" where
  "py_eq_int v (DInt n) = (v = n)"
| "py_eq_int v (DBool b) = (v = (if b then 1 else 0))"
| "py_eq_int v DNone = False"

definition py_eq_bool :: "bool \<Rightarrow> py_default \<Rightarrow> bool" where
  "py_eq_bool b d = py_eq_int (if b then 1 else 0) d"

text \<open>\<open>QComboBox.currentText()\<close>: the empty string when no item is current.\<close>

definition currentText :: "string list \<Rightarrow> int \<Rightarrow> string" where
  "currentText items idx =
     (if 0 \<le> idx \<and> idx < int (length items) then items ! nat idx else [])"

section \<open>The command assembler\<close>

datatype py_error = ValueError | IndexError | Exception string

record os_env =
  shlex_split :: "string \<Rightarrow> string list option"
  os_path_exists :: "string \<Rightarrow> bool"
  shutil_which :: "string \<Rightarrow> string option"
  sys_executable :: string

definition target_options :: "string list" where
  "target_options = [''-u'', ''-d'', ''-l'', ''-m'', ''-r'', ''-g'', ''-c'']"

definition default_tech :: string where
  "default_tech = ''BEUSTQ''"

text \<open>
  The head of \<open>build_sqlmap_command\<close>: \<open>Inr None\<close> is the early \<open>return None, False\<close> after a
  warning box, \<open>Inl\<close> an exception that leaves the function (\<open>shlex.split\<close> on an unbalanced
  quote, \<open>command_parts[0]\<close> on a path of blanks).
\<close>

definition command_base :: "os_env \<Rightarrow> string \<Rightarrow> py_error + string list option" where
  "command_base env sqlmap_path =
     (if sqlmap_path = [] then Inr None
      else case shlex_split env sqlmap_path of
        None \<Rightarrow> Inl ValueError
      | Some command_parts \<Rightarrow>
          (case command_parts of
             [] \<Rightarrow> Inl IndexError
           | executable # _ \<Rightarrow>
               if \<not> os_path_exists env executable \<and> shutil_which env executable = None
               then Inr None
               else if endswith (py_lower sqlmap_path) ''.py'' then
                 (let is_python_call =
                        list_ex (\<lambda>py_exe. endswith (py_lower executable) (py_lower (basename py_exe)))
                          [''python'', ''python3'', sys_executable env]
                  in if \<not> is_python_call \<and> shutil_which env executable = None
                     then Inr (Some (sys_executable env # command_parts))
                     else Inr (Some command_parts))
               else Inr (Some command_parts)))"

text \<open>What the loop body holds in \<open>value\<close>: \<open>None\<close>, a \<open>bool\<close> or a \<open>str\<close>.\<close>

datatype py_value = VNone | VBool bool | VStr string

text \<open>
  The \<open>if/elif\<close> chain on \<open>widget_type\<close>: the pair is \<open>(value, is_default)\<close>. The reads
  cannot raise, since the widget has the class its type asks for.
\<close>

definition read_widget :: "widget_data \<Rightarrow> py_value \<times> bool" where
  "read_widget d =
     (case widget d of
        Lineedit text \<Rightarrow> (let v = py_strip text in (VStr v, v = default_text d))
      | Textarea text \<Rightarrow> (let v = py_strip text in (VStr v, v = default_text d))
      | Checkbox checked \<Rightarrow>
          (let is_default = py_eq_bool checked (default_v d)
           in (VBool (if \<not> is_default then True else checked), is_default))
      | Combo items idx \<Rightarrow>
          (let v = currentText items idx
           in (VStr v, idx = default_index d \<or> (v = [] \<and> default_index d = - 1)))
      | Spin n \<Rightarrow> (VStr (str_int n), py_eq_int n (default_v d))
      | File text \<Rightarrow> (let v = py_strip text in (VStr v, v = []))
      | Directory text \<Rightarrow> (let v = py_strip text in (VStr v, v = []))
      | Unimplemented \<Rightarrow> (VNone, True))"

definition is_default :: "widget_data \<Rightarrow> bool" where
  "is_default d = snd (read_widget d)"

fun isinstance_bool :: "py_value \<Rightarrow> bool" where
  "isinstance_bool (VBool _) = True"
| "isinstance_bool _ = False"

text \<open>\<open>f"{value}"\<close>; only a \<open>str\<close> reaches it in the loop.\<close>

fun py_format :: "py_value \<Rightarrow> string" where
  "py_format (VStr s) = s"
| "py_format (VBool b) = (if b then ''True'' else ''False'')"
| "py_format VNone = ''None''"

text \<open>The tokens one iteration appends for \<open>flag\<close> and \<open>value\<close>.\<close>

definition append_option :: "string \<Rightarrow> py_value \<Rightarrow> string list" where
  "append_option flg v =
     (if v = VBool True then [flg]
      else if startswith flg ''--'' then [flg @ ''='' @ py_format v]
      else [flg, py_format v])"

text \<open>One iteration of the loop over \<open>widgets_map.items()\<close>, on \<open>(command, target_specified)\<close>.\<close>

definition loop_body :: "string \<times> widget_data \<Rightarrow> string list \<times> bool \<Rightarrow> string list \<times> bool" where
  "loop_body e s =
     (case e of (widget_id, d) \<Rightarrow>
      case s of (command, target_specified) \<Rightarrow>
        if startswith widget_id ''tech_'' \<and> is_checkbox (widget d) then (command, target_specified)
        else
          (case read_widget d of (v, is_dflt) \<Rightarrow>
             if \<not> is_dflt \<and> v \<noteq> VNone \<and> (v \<noteq> VStr [] \<or> isinstance_bool v)
             then (command @ append_option (flag d) v,
                   if flag d \<in> set target_options then True else target_specified)
             else (command, target_specified)))"

definition tech_string :: "(string \<times> widget_data) list \<Rightarrow> string" where
  "tech_string widgets_map =
     concat (map (\<lambda>(cb_id, d). flag d)
       (filter (\<lambda>(cb_id, d). startswith cb_id ''tech_'' \<and> is_checkbox (widget d) \<and> isChecked (widget d))
          widgets_map))"

definition build_sqlmap_command ::
  "os_env \<Rightarrow> string \<Rightarrow> (string \<times> widget_data) list \<Rightarrow> py_error + (string list option \<times> bool)" where
  "build_sqlmap_command env sqlmap_path widgets_map =
     (case command_base env sqlmap_path of
        Inl e \<Rightarrow> Inl e
      | Inr None \<Rightarrow> Inr (None, False)
      | Inr (Some base) \<Rightarrow>
          (case fold loop_body widgets_map (base, False) of
             (command, target_specified) \<Rightarrow>
               Inr (Some (if set (tech_string widgets_map) \<noteq> set default_tech
                          then (if tech_string widgets_map \<noteq> []
                                then command @ [''--technique='' @ tech_string widgets_map]
                                else command)
                          else command),
                    target_specified)))"

section \<open>Catalogue entries\<close>

text \<open>
  Some of the calls of \<open>add_widget_option\<close> made by \<open>create_option_tab_content\<close>, each with
  the state its widget is in when the command is built.
\<close>

definition target_url :: "string \<Rightarrow> string \<times> widget_data" where
  "target_url text = add_widget_option ''target_url'' ''-u'' (Lineedit text) no_kwargs"

definition inj_p :: "string \<Rightarrow> string \<times> widget_data" where
  "inj_p text = add_widget_option ''inj_p'' ''-p'' (Lineedit text) no_kwargs"

definition req_random_agent :: "bool \<Rightarrow> string \<times> widget_data" where
  "req_random_agent checked =
     add_widget_option ''req_random_agent'' ''--random-agent'' (Checkbox checked) no_kwargs"

definition req_timeout :: "int \<Rightarrow> string \<times> widget_data" where
  "req_timeout n =
     add_widget_option ''req_timeout'' ''--timeout'' (Spin n) (no_kwargs\<lparr>kw_default := Some (DInt 30)\<rparr>)"

definition gen_csv_del :: "string \<Rightarrow> string \<times> widget_data" where
  "gen_csv_del text =
     add_widget_option ''gen_csv_del'' ''--csv-del'' (Lineedit text)
       (no_kwargs\<lparr>kw_default_text := Some '',''\<rparr>)"

definition tech_checkbox :: "string \<Rightarrow> bool \<Rightarrow> string \<times> widget_data" where
  "tech_checkbox letter checked =
     add_widget_option (''tech_'' @ letter) letter (Checkbox checked)
       (no_kwargs\<lparr>kw_default := Some (DBool True)\<rparr>)"

text \<open>The six boxes of the Techniques tab, in the order they are declared.\<close>

definition technique_checkboxes ::
  "bool \<Rightarrow> bool \<Rightarrow> bool \<Rightarrow> bool \<Rightarrow> bool \<Rightarrow> bool \<Rightarrow> (string \<times> widget_data) list" where
  "technique_checkboxes b e u s t q =
     [tech_checkbox ''B'' b, tech_checkbox ''E'' e, tech_checkbox ''U'' u,
      tech_checkbox ''S'' s, tech_checkbox ''T'' t, tech_checkbox ''Q'' q]"

text \<open>An environment in which \<open>sqlmap\<close> is a file in the working directory.\<close>

definition example_env :: os_env where
  "example_env =
     \<lparr>shlex_split = (\<lambda>s. if s = ''sqlmap'' then Some [''sqlmap''] else None),
      os_path_exists = (\<lambda>f. f = ''sqlmap''),
      shutil_which = (\<lambda>f. None),
      sys_executable = ''/usr/bin/python3''\<rparr>"

section \<open>The catalogue of the program\<close>





















text \<open>The registry type combo box with the item of index \<open>idx\<close> current.\<close>

definition reg_type :: "int \<Rightarrow> string \<times> widget_data" where
  "reg_type idx =
     add_widget_option ''reg_type'' ''--reg-type''
       (Combo [''REG_SZ'', ''REG_DWORD'', ''REG_BINARY'', ''REG_MULTI_SZ'', ''REG_EXPAND_SZ''] idx)
       no_kwargs"



section \<open>What one option contributes\<close>

text \<open>The boxes the loop skips and the technique step joins.\<close>

definition is_technique_checkbox :: "string \<times> widget_data \<Rightarrow> bool" where
  "is_technique_checkbox e = (startswith (fst e) ''tech_'' \<and> is_checkbox (widget (snd e)))"

text \<open>The test that guards the appends of the loop body.\<close>

definition emitted :: "widget_data \<Rightarrow> bool" where
  "emitted d =
     (case read_widget d of (v, is_dflt) \<Rightarrow>
        \<not> is_dflt \<and> v \<noteq> VNone \<and> (v \<noteq> VStr [] \<or> isinstance_bool v))"

definition option_tokens :: "string \<times> widget_data \<Rightarrow> string list" where
  "option_tokens e =
     (if is_technique_checkbox e \<or> \<not> emitted (snd e) then []
      else append_option (flag (snd e)) (fst (read_widget (snd e))))"

definition option_is_target :: "string \<times> widget_data \<Rightarrow> bool" where
  "option_is_target e =
     (\<not> is_technique_checkbox e \<and> emitted (snd e) \<and> flag (snd e) \<in> set target_options)"

definition technique_tokens :: "(string \<times> widget_data) list \<Rightarrow> string list" where
  "technique_tokens widgets_map =
     (if set (tech_string widgets_map) \<noteq> set default_tech \<and> tech_string widgets_map \<noteq> []
      then [''--technique='' @ tech_string widgets_map] else [])"

section \<open>The runner thread\<close>

text \<open>
  The three Qt signals of \<open>SqlmapRunnerThread\<close>, each with the instance identifier it is
  emitted with.
\<close>

datatype signal =
    outputTextAvailable int string
  | processFinished int int
  | processError int string

text \<open>
  A \<open>subprocess.Popen\<close> object as the thread sees it: \<open>poll\<close> is \<open>None\<close> while the child
  runs and its return code afterwards.
\<close>

datatype popen = Popen (poll: "int option")

text \<open>The field \<open>identifier_no\<close> is the attribute \<open>identifier\<close>, \<open>is_running\<close> is \<open>_is_running\<close>.\<close>

record runner_thread =
  command_list :: "string list"
  process :: "popen option"
  is_running :: bool
  identifier_no :: int

text \<open>
  \<open>__init__\<close>: the second argument and the second result are the class attribute
  \<open>thread_counter\<close> before and after.
\<close>

definition init_thread :: "string list \<Rightarrow> int \<Rightarrow> runner_thread \<times> int" where
  "init_thread cmd thread_counter =
     (\<lparr>command_list = cmd, process = None, is_running = True, identifier_no = thread_counter\<rparr>,
      thread_counter + 1)"

fun py_join :: "string \<Rightarrow> string list \<Rightarrow> string" where
  "py_join sep [] = []"
| "py_join sep [x] = x"
| "py_join sep (x # y # ys) = x @ sep @ py_join sep (y # ys)"

text \<open>The texts the thread emits; letters outside ASCII are given by their code points.\<close>

definition newline :: string where
  "newline = [CHR 0x0A]"

definition command_message :: "string list \<Rightarrow> string" where
  "command_message cmd =
     ''[KOMMANDO] K'' @ [CHR 0xF6] @ ''r: '' @ py_join '' '' cmd @ newline @ ''---'' @ newline"

definition cancelled_message :: string where
  "cancelled_message =
     newline @ ''[INFO] Process avbruten av anv'' @ [CHR 0xE4] @ ''ndaren.'' @ newline"

definition not_found_message :: "string \<Rightarrow> string" where
  "not_found_message exe =
     ''Fel: Kommandot '' @ [CHR 0x27] @ exe @ [CHR 0x27] @ '' hittades inte. Kontrollera s''
     @ [CHR 0xF6] @ ''kv'' @ [CHR 0xE4] @ ''gen i Arkiv -> V'' @ [CHR 0xE4] @ ''lj sqlmap S''
     @ [CHR 0xF6] @ ''kv'' @ [CHR 0xE4] @ ''g.''"

definition unexpected_message :: "string \<Rightarrow> string" where
  "unexpected_message e =
     ''Ett ov'' @ [CHR 0xE4] @ ''ntat fel uppstod i k'' @ [CHR 0xF6] @ ''rningstr'' @ [CHR 0xE5]
     @ ''den: '' @ e"

definition stopping_message :: string where
  "stopping_message =
     newline @ ''[INFO] F'' @ [CHR 0xF6] @ ''rs'' @ [CHR 0xF6] @ ''ker stoppa processen...'' @ newline"

definition kill_message :: string where
  "kill_message =
     ''[INFO] Process svarade inte p'' @ [CHR 0xE5] @ '' terminate, f'' @ [CHR 0xF6] @ ''rs''
     @ [CHR 0xF6] @ ''ker kill...'' @ newline"

definition stop_warning_message :: "string \<Rightarrow> string" where
  "stop_warning_message e =
     ''[VARNING] Fel vid f'' @ [CHR 0xF6] @ ''rs'' @ [CHR 0xF6] @ ''k att stoppa processen: '' @ e
     @ newline"

text \<open>
  What the world outside the thread decides during one \<open>run()\<close>: the outcome of
  \<open>subprocess.Popen\<close>; for each test of the \<open>while\<close> condition in turn, whether \<open>stop()\<close>
  has cleared \<open>_is_running\<close> by then, and otherwise what \<open>readline()\<close> returns and, for an
  empty line, \<open>poll()\<close>; what \<open>poll()\<close> returns after the loop; how \<open>terminate()\<close> and
  \<open>wait(timeout=2)\<close> end; whether \<open>kill()\<close> raises; the code the last \<open>wait()\<close> returns.
  An exception carries its text \<open>str(e)\<close>; only \<open>Popen\<close> raises \<open>FileNotFoundError\<close>.
\<close>

datatype spawn_outcome = Spawned | Spawn_FileNotFoundError | Spawn_Exception string

datatype read_step = Stopped | Readline string "int option" | Read_raises string

datatype wait_outcome = Exited_in_time | TimeoutExpired | Wait_raises string

record run_env =
  spawn :: spawn_outcome
  reads :: "read_step list"
  poll_after_loop :: "int option"
  wait_2s :: wait_outcome
  kill_raises :: "string option"
  final_wait :: int

text \<open>How the \<open>while\<close> loop is left.\<close>

datatype loop_exit = Exited int | Stop_seen | Raised string

text \<open>
  The read loop. \<open>self.process.stdout\<close> is a pipe object and always true. The result is
  \<open>None\<close> when the loop is still running after the last step of the list.
\<close>

fun read_loop :: "int \<Rightarrow> read_step list \<Rightarrow> (signal list \<times> loop_exit) option" where
  "read_loop instance_id [] = None"
| "read_loop instance_id (Stopped # rest) = Some ([], Stop_seen)"
| "read_loop instance_id (Read_raises e # rest) = Some ([], Raised e)"
| "read_loop instance_id (Readline line p # rest) =
     (if line \<noteq> [] then
        (case read_loop instance_id rest of
           None \<Rightarrow> None
         | Some (out, x) \<Rightarrow> Some (outputTextAvailable instance_id line # out, x))
      else case p of
        Some rc \<Rightarrow> Some ([], Exited rc)
      | None \<Rightarrow> read_loop instance_id rest)"

text \<open>
  \<open>run()\<close>: the signals in the order they are emitted, the exception that leaves \<open>run()\<close> if
  one does, and the thread after the \<open>finally\<close> clause.
\<close>

definition run :: "runner_thread \<Rightarrow> run_env \<Rightarrow> (signal list \<times> py_error option \<times> runner_thread) option" where
  "run self env =
     (let instance_id = identifier_no self;
          finally = self\<lparr>process := None, is_running := False\<rparr>;
          started = [outputTextAvailable instance_id (command_message (command_list self))];
          failed = (\<lambda>e. [processError instance_id (unexpected_message e),
                          processFinished instance_id (- 1)])
      in case spawn env of
           Spawn_FileNotFoundError \<Rightarrow>
             (case command_list self of
                [] \<Rightarrow> Some (started, Some IndexError, finally)
              | exe # _ \<Rightarrow>
                  Some (started @ [processError instance_id (not_found_message exe),
                                   processFinished instance_id (- 1)], None, finally))
         | Spawn_Exception e \<Rightarrow> Some (started @ failed e, None, finally)
         | Spawned \<Rightarrow>
             (case read_loop instance_id (reads env) of
                None \<Rightarrow> None
              | Some (out, Raised e) \<Rightarrow> Some (started @ out @ failed e, None, finally)
              | Some (out, Exited rc) \<Rightarrow>
                  Some (started @ out @ [processFinished instance_id rc], None, finally)
              | Some (out, Stop_seen) \<Rightarrow>
                  (case poll_after_loop env of
                     Some rc \<Rightarrow>
                       Some (started @ out @ [processFinished instance_id rc], None, finally)
                   | None \<Rightarrow>
                       (let cancelled =
                              [outputTextAvailable instance_id cancelled_message,
                               processFinished instance_id (final_wait env)]
                        in case wait_2s env of
                             Exited_in_time \<Rightarrow> Some (started @ out @ cancelled, None, finally)
                           | Wait_raises e \<Rightarrow> Some (started @ out @ failed e, None, finally)
                           | TimeoutExpired \<Rightarrow>
                               (case kill_raises env of
                                  None \<Rightarrow> Some (started @ out @ cancelled, None, finally)
                                | Some e \<Rightarrow> Some (started @ out @ failed e, None, finally))))))"

text \<open>What the world decides during one \<open>stop()\<close>.\<close>

record stop_env =
  wait_1s :: wait_outcome
  stop_kill_raises :: "string option"
  exit_code :: int

text \<open>
  \<open>stop()\<close>, called from the GUI thread: the signals it emits, the exception that leaves it
  if one does, and the thread afterwards.
\<close>

definition stop :: "runner_thread \<Rightarrow> stop_env \<Rightarrow> signal list \<times> py_error option \<times> runner_thread" where
  "stop self env =
     (let instance_id = identifier_no self;
          self = self\<lparr>is_running := False\<rparr>
      in case process self of
           None \<Rightarrow> ([], None, self)
         | Some (Popen (Some rc)) \<Rightarrow> ([], None, self)
         | Some (Popen None) \<Rightarrow>
             (let trying = [outputTextAvailable instance_id stopping_message]
              in case wait_1s env of
                   Exited_in_time \<Rightarrow>
                     (trying, None, self\<lparr>process := Some (Popen (Some (exit_code env)))\<rparr>)
                 | TimeoutExpired \<Rightarrow>
                     (trying @ [outputTextAvailable instance_id kill_message],
                      map_option Exception (stop_kill_raises env), self)
                 | Wait_raises e \<Rightarrow>
                     (trying @ [outputTextAvailable instance_id (stop_warning_message e)],
                      None, self)))"

section \<open>The main window\<close>

text \<open>
  The part of \<open>SqlmapGui\<close> the runs live in: the class attribute \<open>thread_counter\<close>, the
  dictionary \<open>running_processes\<close> in insertion order (each entry with the thread, what
  \<open>QThread.isRunning()\<close> returns for it, and its output widget), the widgets of the output
  tabs in tab order and the current tab index. A widget is named by a number.
\<close>

record running_entry =
  thread :: runner_thread
  isRunning :: bool
  output_widget :: nat

record sqlmap_gui =
  thread_counter :: int
  running_processes :: "(int \<times> running_entry) list"
  output_tabs :: "nat list"
  current_index :: int

text \<open>\<open>QTabWidget.widget(index)\<close>: no widget for an index out of range.\<close>

definition tab_widget :: "nat list \<Rightarrow> int \<Rightarrow> nat option" where
  "tab_widget tabs i = (if 0 \<le> i \<and> i < int (length tabs) then Some (tabs ! nat i) else None)"

text \<open>\<open>d[k] = v\<close> and \<open>del d[k]\<close> on a dictionary kept in insertion order.\<close>

fun dict_set :: "int \<Rightarrow> 'v \<Rightarrow> (int \<times> 'v) list \<Rightarrow> (int \<times> 'v) list" where
  "dict_set k v [] = [(k, v)]"
| "dict_set k v ((k', v') # d) = (if k = k' then (k, v) # d else (k', v') # dict_set k v d)"

definition dict_del :: "int \<Rightarrow> (int \<times> 'v) list \<Rightarrow> (int \<times> 'v) list" where
  "dict_del k d = filter (\<lambda>(k', v). k' \<noteq> k) d"

text \<open>
  The branch of \<open>start_sqlmap_instance\<close> that runs the command in a tab: a new thread is
  made for the command, registered under its identifier_no with the new output widget, the
  tab is added and made current, and the thread is started.
\<close>

definition start_sqlmap_instance :: "string list \<Rightarrow> nat \<Rightarrow> sqlmap_gui \<Rightarrow> sqlmap_gui" where
  "start_sqlmap_instance cmd output_edit g =
     (case init_thread cmd (thread_counter g) of
        (thr, counter) \<Rightarrow>
          g\<lparr>thread_counter := counter,
            running_processes :=
              dict_set (identifier_no thr)
                \<lparr>thread = thr, isRunning = True, output_widget = output_edit\<rparr>
                (running_processes g),
            output_tabs := output_tabs g @ [output_edit],
            current_index := int (length (output_tabs g))\<rparr>)"

text \<open>The slots of the two terminal signals: the entry of the instance is deleted.\<close>

definition on_process_finished :: "int \<Rightarrow> int \<Rightarrow> sqlmap_gui \<Rightarrow> sqlmap_gui" where
  "on_process_finished instance_id return_code g =
     (if instance_id \<in> fst ` set (running_processes g)
      then g\<lparr>running_processes := dict_del instance_id (running_processes g)\<rparr> else g)"

definition on_process_error :: "int \<Rightarrow> string \<Rightarrow> sqlmap_gui \<Rightarrow> sqlmap_gui" where
  "on_process_error instance_id error_message g =
     (if instance_id \<in> fst ` set (running_processes g)
      then g\<lparr>running_processes := dict_del instance_id (running_processes g)\<rparr> else g)"

text \<open>
  \<open>stop_current_sqlmap_instance\<close>: the instance whose output widget is the current tab is
  looked up; \<open>stop()\<close> is called on its thread when the thread is running.
\<close>

definition stop_current_sqlmap_instance ::
  "stop_env \<Rightarrow> sqlmap_gui \<Rightarrow> signal list \<times> py_error option \<times> sqlmap_gui" where
  "stop_current_sqlmap_instance env g =
     (if current_index g < 0 then ([], None, g)
      else case find (\<lambda>(id_val, d). Some (output_widget d) = tab_widget (output_tabs g) (current_index g))
                  (running_processes g) of
        None \<Rightarrow> ([], None, g)
      | Some (instance_id_to_stop, d) \<Rightarrow>
          if isRunning d then
            (case stop (thread d) env of
               (sigs, err, thr) \<Rightarrow>
                 (sigs, err,
                  g\<lparr>running_processes :=
                      dict_set instance_id_to_stop (d\<lparr>thread := thr\<rparr>) (running_processes g)\<rparr>))
          else ([], None, g))"

text \<open>What happens to the window, one event after the other.\<close>

datatype gui_event =
    Start "string list" nat
  | Finished int int
  | Error int string
  | Stop_current stop_env

fun gui_step :: "gui_event \<Rightarrow> sqlmap_gui \<Rightarrow> sqlmap_gui" where
  "gui_step (Start cmd output_edit) g = start_sqlmap_instance cmd output_edit g"
| "gui_step (Finished instance_id return_code) g = on_process_finished instance_id return_code g"
| "gui_step (Error instance_id error_message) g = on_process_error instance_id error_message g"
| "gui_step (Stop_current env) g = snd (snd (stop_current_sqlmap_instance env g))"

text \<open>The identifiers given out while a list of events is handled, in order.\<close>

fun allocated :: "gui_event list \<Rightarrow> sqlmap_gui \<Rightarrow> int list" where
  "allocated [] g = []"
| "allocated (Start cmd output_edit # evs) g =
     identifier_no (fst (init_thread cmd (thread_counter g)))
       # allocated evs (gui_step (Start cmd output_edit) g)"
| "allocated (ev # evs) g = allocated evs (gui_step ev g)"

section \<open>Reading a list of signals\<close>

fun is_output :: "signal \<Rightarrow> bool" where
  "is_output (outputTextAvailable i s) = True"
| "is_output _ = False"

fun is_finished :: "signal \<Rightarrow> bool" where
  "is_finished (processFinished i rc) = True"
| "is_finished _ = False"

fun is_error :: "signal \<Rightarrow> bool" where
  "is_error (processError i s) = True"
| "is_error _ = False"

fun signal_id :: "signal \<Rightarrow> int" where
  "signal_id (outputTextAvailable i s) = i"
| "signal_id (processFinished i rc) = i"
| "signal_id (processError i s) = i"

text \<open>The steps at which the \<open>while\<close> loop is left.\<close>

fun ends_loop :: "read_step \<Rightarrow> bool" where
  "ends_loop Stopped = True"
| "ends_loop (Read_raises e) = True"
| "ends_loop (Readline line p) = (line = [] \<and> p \<noteq> None)"

text \<open>
  The runs that take an \<open>except\<close> branch: the spawn fails, a read raises, or the loop is left
  by a stop with the child still alive and \<open>terminate()\<close>, \<open>wait()\<close> or \<open>kill()\<close> raises.
\<close>

definition run_raises :: "run_env \<Rightarrow> bool" where
  "run_raises env =
     (case spawn env of
        Spawned \<Rightarrow>
          (case read_loop 0 (reads env) of
             Some (out, Raised e) \<Rightarrow> True
           | Some (out, Stop_seen) \<Rightarrow>
               poll_after_loop env = None \<and>
               (case wait_2s env of
                  Wait_raises e \<Rightarrow> True
                | TimeoutExpired \<Rightarrow> kill_raises env \<noteq> None
                | Exited_in_time \<Rightarrow> False)
           | _ \<Rightarrow> False)
      | _ \<Rightarrow> True)"

text \<open>
  Ending a child that is still alive after the loop raises: \<open>terminate()\<close> or
  \<open>wait(timeout=2)\<close> raises something other than \<open>TimeoutExpired\<close>, or the wait times out and
  \<open>kill()\<close> raises.
\<close>

definition termination_raises :: "run_env \<Rightarrow> bool" where
  "termination_raises env =
     (case wait_2s env of
        Wait_raises e \<Rightarrow> True
      | TimeoutExpired \<Rightarrow> kill_raises env \<noteq> None
      | Exited_in_time \<Rightarrow> False)"

text \<open>
  The runs that leave the loop because \<open>stop()\<close> was called, and then find the child still
  alive and end it without an exception.
\<close>

definition stopped_alive :: "run_env \<Rightarrow> bool" where
  "stopped_alive env =
     (spawn env = Spawned \<and> map_option snd (read_loop 0 (reads env)) = Some Stop_seen
      \<and> poll_after_loop env = None \<and> \<not> run_raises env)"

section \<open>Example runs\<close>

definition example_thread :: runner_thread where
  "example_thread = fst (init_thread [''sqlmap'', ''-u'', ''http://x/a.php?id=1''] 0)"

text \<open>The child prints one line and exits with code 0.\<close>

definition example_run :: run_env where
  "example_run =
     \<lparr>spawn = Spawned, reads = [Readline ''line'' None, Readline [] (Some 0)],
      poll_after_loop = None, wait_2s = Exited_in_time, kill_raises = None, final_wait = 0\<rparr>"

text \<open>The executable is not found.\<close>

definition example_not_found :: run_env where
  "example_not_found = example_run\<lparr>spawn := Spawn_FileNotFoundError\<rparr>"

text \<open>
  The child prints one line and exits by itself with code 0; then \<open>stop()\<close> is called, before
  the loop has read the end of the stream: the loop is left at its next test of the flag.
\<close>

definition example_stopped_exited :: run_env where
  "example_stopped_exited =
     example_run\<lparr>reads := [Readline ''line'' None, Stopped], poll_after_loop := Some 0\<rparr>"

text \<open>The same, with the child still alive when the loop is left.\<close>

definition example_stopped_alive :: run_env where
  "example_stopped_alive =
     example_run\<lparr>reads := [Readline ''line'' None, Stopped], final_wait := - 15\<rparr>"

text \<open>
  The child prints one line; then the loop is left by a stop, the child is alive, and
  \<open>wait(timeout=2)\<close> raises.
\<close>

definition example_stopped_wait_raises :: run_env where
  "example_stopped_wait_raises =
     example_run\<lparr>reads := [Readline ''line'' None, Stopped], wait_2s := Wait_raises ''EINTR''\<rparr>"

definition example_gui :: sqlmap_gui where
  "example_gui = \<lparr>thread_counter = 0, running_processes = [], output_tabs = [], current_index = - 1\<rparr>"

definition example_stop_env :: stop_env where
  "example_stop_env = \<lparr>wait_1s = Exited_in_time, stop_kill_raises = None, exit_code = - 15\<rparr>"

section \<open>Properties of the assembler\<close>

lemma loop_body_eq: "loop_body e (c, t) = (c @ option_tokens e, t \<or> option_is_target e)"
  by (cases e) (auto simp: loop_body_def option_tokens_def option_is_target_def
      is_technique_checkbox_def emitted_def split: prod.splits)

lemma fold_loop_body:
  "fold loop_body m (c, t) = (c @ concat (map option_tokens m), t \<or> (\<exists>e \<in> set m. option_is_target e))"
  by (induction m arbitrary: c t) (auto simp: loop_body_eq)

lemma build_eq:
  assumes "command_base env p = Inr (Some base)"
  shows "build_sqlmap_command env p m =
     Inr (Some (base @ concat (map option_tokens m) @ technique_tokens m),
          \<exists>e \<in> set m. option_is_target e)"
  using assms by (simp add: build_sqlmap_command_def fold_loop_body technique_tokens_def)


lemma example_base: "command_base example_env ''sqlmap'' = Inr (Some [''sqlmap''])"
  by (simp add: command_base_def example_env_def endswith_def py_lower_def)

lemma option_tokens_technique: "is_technique_checkbox e \<Longrightarrow> option_tokens e = []"
  by (simp add: option_tokens_def)

lemma option_tokens_default: "is_default (snd e) \<Longrightarrow> option_tokens e = []"
  by (auto simp: option_tokens_def emitted_def is_default_def split: prod.splits)

lemma option_is_target_default: "is_default (snd e) \<Longrightarrow> \<not> option_is_target e"
  by (auto simp: option_is_target_def emitted_def is_default_def split: prod.splits)

lemma option_is_target_not_technique: "option_is_target e \<Longrightarrow> \<not> is_technique_checkbox e"
  by (simp add: option_is_target_def)

lemma tech_string_filter:
  "tech_string m = concat (map (flag \<circ> snd)
     (filter (\<lambda>e. is_technique_checkbox e \<and> isChecked (widget (snd e))) m))"
  unfolding tech_string_def is_technique_checkbox_def
  by (induction m) (auto simp: case_prod_beta)

lemma tech_string_only_boxes: "tech_string (filter is_technique_checkbox m) = tech_string m"
  by (induction m) (auto simp: tech_string_filter)

lemma tech_string_checkboxes:
  "tech_string (technique_checkboxes b e u s t q) =
     (if b then ''B'' else []) @ (if e then ''E'' else []) @ (if u then ''U'' else []) @
     (if s then ''S'' else []) @ (if t then ''T'' else []) @ (if q then ''Q'' else [])"
  by (simp add: tech_string_def technique_checkboxes_def tech_checkbox_def add_widget_option_def
      startswith_def)

lemma set_default_tech:
  "set default_tech = {CHR ''B'', CHR ''E'', CHR ''U'', CHR ''S'', CHR ''T'', CHR ''Q''}"
  by (auto simp: default_tech_def)

text \<open>
  Claim C2. The technique step joins the flags of the checked technique boxes in the order of
  the catalogue. When the set of joined letters is \<open>{B, E, U, S, T, Q}\<close>, whatever their
  order, the command is the one the option loop produced: no technique token. For any other
  non-empty selection exactly one token \<open>--technique=<letters>\<close> is appended after the
  loop's tokens. The option loop itself passes over the technique boxes.
\<close>

theorem technique_group_rule:
  assumes "command_base env p = Inr (Some base)"
  shows "(set (tech_string m) = {CHR ''B'', CHR ''E'', CHR ''U'', CHR ''S'', CHR ''T'', CHR ''Q''} \<longrightarrow>
            build_sqlmap_command env p m =
              Inr (Some (fst (fold loop_body m (base, False))), snd (fold loop_body m (base, False))))
       \<and> (set (tech_string m) \<noteq> {CHR ''B'', CHR ''E'', CHR ''U'', CHR ''S'', CHR ''T'', CHR ''Q''}
            \<and> tech_string m \<noteq> [] \<longrightarrow>
            build_sqlmap_command env p m =
              Inr (Some (fst (fold loop_body m (base, False)) @ [''--technique='' @ tech_string m]),
                   snd (fold loop_body m (base, False))))
       \<and> fold loop_body m (base, False) =
           fold loop_body (filter (\<lambda>e. \<not> is_technique_checkbox e) m) (base, False)
       \<and> tech_string m = concat (map (flag \<circ> snd)
           (filter (\<lambda>e. is_technique_checkbox e \<and> isChecked (widget (snd e))) m))"
proof -
  have tokens: "concat (map option_tokens (filter (\<lambda>e. \<not> is_technique_checkbox e) m)) =
      concat (map option_tokens m)"
    by (induction m) (auto simp: option_tokens_technique)
  have target: "(\<exists>e \<in> set (filter (\<lambda>e. \<not> is_technique_checkbox e) m). option_is_target e) =
      (\<exists>e \<in> set m. option_is_target e)"
    using option_is_target_not_technique by auto
  have loop: "fold loop_body m (base, False) =
      fold loop_body (filter (\<lambda>e. \<not> is_technique_checkbox e) m) (base, False)"
    unfolding fold_loop_body tokens target ..
  show ?thesis
    using loop tech_string_filter [of m]
    by (simp add: build_eq [OF assms] fold_loop_body technique_tokens_def set_default_tech)
qed

lemma checkboxes_are_technique:
  "\<forall>x \<in> set (technique_checkboxes b e u s t q). is_technique_checkbox x"
  by (simp add: technique_checkboxes_def tech_checkbox_def add_widget_option_def
      is_technique_checkbox_def startswith_def)

lemma loop_checkboxes:
  "fold loop_body (technique_checkboxes b e u s t q) (base, tgt) = (base, tgt)"
proof -
  have "concat (map option_tokens (technique_checkboxes b e u s t q)) = []"
    using checkboxes_are_technique [of b e u s t q] by (simp add: option_tokens_technique)
  moreover have "\<not> (\<exists>x \<in> set (technique_checkboxes b e u s t q). option_is_target x)"
    using checkboxes_are_technique [of b e u s t q] by (simp add: option_is_target_def)
  ultimately show ?thesis
    by (simp only: fold_loop_body) simp
qed

theorem technique_group_rule_witness:
  "command_base example_env ''sqlmap'' = Inr (Some [''sqlmap''])
   \<and> build_sqlmap_command example_env ''sqlmap'' (technique_checkboxes False False True True False False) =
       Inr (Some [''sqlmap'', ''--technique=US''], False)
   \<and> build_sqlmap_command example_env ''sqlmap'' (technique_checkboxes True True True True True True) =
       Inr (Some [''sqlmap''], False)"
proof -
  have ne: "{CHR ''U'', CHR ''S''} \<noteq> {CHR ''B'', CHR ''E'', CHR ''U'', CHR ''S'', CHR ''T'', CHR ''Q''}"
  proof
    assume "{CHR ''U'', CHR ''S''} = {CHR ''B'', CHR ''E'', CHR ''U'', CHR ''S'', CHR ''T'', CHR ''Q''}"
    then have "CHR ''B'' \<in> {CHR ''U'', CHR ''S''}" by simp
    then show False by simp
  qed
  show ?thesis
    using technique_group_rule [OF example_base, of "technique_checkboxes False False True True False False"]
      technique_group_rule [OF example_base, of "technique_checkboxes True True True True True True"] ne
    by (simp add: example_base tech_string_checkboxes loop_checkboxes)
qed

text \<open>
  Claim C10. When no technique box is checked the joined string is empty; it differs from
  the default letters as a set, and still no technique token is appended: the command is the
  one the option loop produced.
\<close>

theorem no_letters_no_technique:
  assumes "command_base env p = Inr (Some base)"
    and "\<forall>e \<in> set m. is_technique_checkbox e \<longrightarrow> \<not> isChecked (widget (snd e))"
  shows "tech_string m = [] \<and> set (tech_string m) \<noteq> set default_tech
       \<and> build_sqlmap_command env p m =
           Inr (Some (fst (fold loop_body m (base, False))), snd (fold loop_body m (base, False)))"
proof -
  have "filter (\<lambda>e. is_technique_checkbox e \<and> isChecked (widget (snd e))) m = []"
    using assms(2) by (auto simp: filter_empty_conv)
  then have empty: "tech_string m = []"
    by (simp add: tech_string_filter)
  then show ?thesis
    by (simp add: build_eq [OF assms(1)] fold_loop_body technique_tokens_def default_tech_def)
qed

theorem no_letters_no_technique_witness:
  "command_base example_env ''sqlmap'' = Inr (Some [''sqlmap''])
   \<and> list_all (\<lambda>e. \<not> isChecked (widget (snd e)))
         (technique_checkboxes False False False False False False)
   \<and> build_sqlmap_command example_env ''sqlmap'' (technique_checkboxes False False False False False False) =
       Inr (Some [''sqlmap''], False)"
proof -
  have boxes_off: "list_all (\<lambda>e. \<not> isChecked (widget (snd e)))
      (technique_checkboxes False False False False False False)"
    by (simp add: technique_checkboxes_def tech_checkbox_def add_widget_option_def)
  then have boxes: "\<forall>e \<in> set (technique_checkboxes False False False False False False).
         is_technique_checkbox e \<longrightarrow> \<not> isChecked (widget (snd e))"
    by (simp add: list_all_iff)
  have "build_sqlmap_command example_env ''sqlmap''
      (technique_checkboxes False False False False False False) = Inr (Some [''sqlmap''], False)"
    using no_letters_no_technique [OF example_base boxes]
    by (simp add: loop_checkboxes)
  with boxes_off example_base show ?thesis
    by simp
qed

lemma str_nat_nonempty: "str_nat n \<noteq> []"
  by (subst str_nat.simps) simp

lemma str_int_nonempty: "str_int i \<noteq> []"
  by (simp add: str_int_def str_nat_nonempty)

lemma str_int_45: "str_int 45 = ''45''"
  by code_simp

lemma strip_example_url: "py_strip ''http://x/a.php?id=1'' = ''http://x/a.php?id=1''"
  by (simp add: py_strip_def py_isspace_def)

lemmas entry_defs = target_url_def inj_p_def req_random_agent_def req_timeout_def gen_csv_del_def
  tech_checkbox_def add_widget_option_def no_kwargs_def

lemmas token_defs = option_tokens_def option_is_target_def is_technique_checkbox_def emitted_def
  read_widget_def append_option_def startswith_def py_eq_bool_def target_options_def Let_def

lemma tokens_target_url:
  "option_tokens (target_url text) = (if py_strip text = [] then [] else [''-u'', py_strip text])"
  "option_is_target (target_url text) = (py_strip text \<noteq> [])"
  by (simp_all add: entry_defs token_defs)



lemma tokens_req_random_agent:
  "option_tokens (req_random_agent c) = (if c then [''--random-agent''] else [])"
  "option_is_target (req_random_agent c) = False"
  by (simp_all add: entry_defs token_defs)

lemma tokens_gen_csv_del:
  "option_tokens (gen_csv_del text) =
     (if py_strip text = '','' \<or> py_strip text = [] then [] else [''--csv-del='' @ py_strip text])"
  "option_is_target (gen_csv_del text) = False"
  by (simp_all add: entry_defs token_defs)













text \<open>
  The registry type combo box has no empty item and no \<open>default_index\<close>: whichever item is
  current, the option fails the default test and is emitted.
\<close>

lemma reg_type_never_default:
  assumes "0 \<le> idx" and "idx < 5"
  shows "\<not> is_default (snd (reg_type idx))" and "option_tokens (reg_type idx) \<noteq> []"
proof -
  from assms have "idx \<in> {0, 1, 2, 3, 4}"
    by auto
  then show "\<not> is_default (snd (reg_type idx))" and "option_tokens (reg_type idx) \<noteq> []"
    by (auto simp: reg_type_def add_widget_option_def no_kwargs_def is_default_def token_defs
        currentText_def)
qed






lemma tech_string_remove:
  "\<not> is_technique_checkbox e \<Longrightarrow> tech_string (pre @ e # post) = tech_string (pre @ post)"
  by (simp add: tech_string_filter)

text \<open>
  Claim C4, amended to the options the option loop handles (every entry but the technique
  boxes). An option whose value equals its default under the test of its kind leaves the
  command and the target flag as they were, and the command built from the whole catalogue
  is the one built from the catalogue without that option.
\<close>

theorem default_option_not_emitted:
  assumes "\<not> is_technique_checkbox (wid, d)" and "is_default d"
  shows "loop_body (wid, d) (command, tgt) = (command, tgt)
       \<and> build_sqlmap_command env p (pre @ (wid, d) # post) = build_sqlmap_command env p (pre @ post)"
proof -
  have tokens: "option_tokens (wid, d) = []" and target: "\<not> option_is_target (wid, d)"
    using assms(2) by (simp_all add: option_tokens_default option_is_target_default)
  have step: "loop_body (wid, d) s = s" for s
    by (cases s) (simp add: loop_body_eq tokens target)
  have loop: "fold loop_body (pre @ (wid, d) # post) s = fold loop_body (pre @ post) s" for s
    by (simp add: step)
  have "build_sqlmap_command env p (pre @ (wid, d) # post) = build_sqlmap_command env p (pre @ post)"
    unfolding build_sqlmap_command_def loop tech_string_remove [OF assms(1)] ..
  with step [of "(command, tgt)"] show ?thesis
    by simp
qed

lemma default_req_timeout:
  "\<not> is_technique_checkbox (req_timeout n)" "is_default (snd (req_timeout n)) = (n = 30)"
  by (simp_all add: entry_defs is_technique_checkbox_def is_default_def read_widget_def)

theorem default_option_not_emitted_witness:
  "is_default (snd (req_timeout 30))
   \<and> build_sqlmap_command example_env ''sqlmap''
       [target_url ''http://x/a.php?id=1'', req_timeout 30, req_random_agent True] =
     Inr (Some [''sqlmap'', ''-u'', ''http://x/a.php?id=1'', ''--random-agent''], True)"
proof -
  have a: "\<not> is_technique_checkbox (fst (req_timeout 30), snd (req_timeout 30))"
    and b: "is_default (snd (req_timeout 30))"
    by (simp_all add: default_req_timeout)
  have "build_sqlmap_command example_env ''sqlmap''
      [target_url ''http://x/a.php?id=1'', req_random_agent True] =
     Inr (Some [''sqlmap'', ''-u'', ''http://x/a.php?id=1'', ''--random-agent''], True)"
  proof -
    have "tech_string [target_url ''http://x/a.php?id=1'', req_random_agent True] = []"
      by (simp add: tech_string_def entry_defs startswith_def)
    then show ?thesis
      by (simp add: build_eq [OF example_base] technique_tokens_def
          tokens_target_url tokens_req_random_agent strip_example_url)
  qed
  then show ?thesis
    using default_option_not_emitted [OF a b, of _ _ example_env "''sqlmap''"
        "[target_url ''http://x/a.php?id=1'']" "[req_random_agent True]"] b
    by simp
qed

lemma set_neq_by_element: "x \<in> B \<Longrightarrow> x \<notin> A \<Longrightarrow> A \<noteq> B"
  by auto

lemma tokens_tech_checkbox:
  "option_tokens (tech_checkbox letter c) = []"
  "option_is_target (tech_checkbox letter c) = False"
  by (simp_all add: option_tokens_def option_is_target_def is_technique_checkbox_def
      tech_checkbox_def add_widget_option_def startswith_def)

lemma default_tech_checkbox: "is_default (snd (tech_checkbox letter c)) = c"
  by (simp add: is_default_def read_widget_def tech_checkbox_def add_widget_option_def
      py_eq_bool_def)

text \<open>
  The claim as stated for every option fails in the technique group: the box \<open>B\<close> is
  checked, which is its default, the box \<open>E\<close> is not, and the letter of \<open>B\<close> is part of the
  token that is emitted; without the box the token is another one.
\<close>

theorem default_technique_letter_counterexample:
  "is_default (snd (tech_checkbox ''B'' True))
   \<and> build_sqlmap_command example_env ''sqlmap''
       (technique_checkboxes True False True True True True) =
     Inr (Some [''sqlmap'', ''--technique=BUSTQ''], False)
   \<and> build_sqlmap_command example_env ''sqlmap''
       (tl (technique_checkboxes True False True True True True)) =
     Inr (Some [''sqlmap'', ''--technique=USTQ''], False)"
proof -
  have "tech_string (technique_checkboxes True False True True True True) = ''BUSTQ''"
    by (simp add: tech_string_checkboxes)
  moreover have "tech_string (tl (technique_checkboxes True False True True True True)) = ''USTQ''"
    by (simp add: tech_string_def technique_checkboxes_def tech_checkbox_def add_widget_option_def
        startswith_def)
  moreover have "''BUSTQ'' \<noteq> default_tech" "''USTQ'' \<noteq> default_tech"
    by (simp_all add: default_tech_def)
  moreover have "set ''BUSTQ'' \<noteq> set default_tech"
    by (rule set_neq_by_element [of "CHR ''E''"]) (simp_all add: default_tech_def)
  moreover have "set ''USTQ'' \<noteq> set default_tech"
    by (rule set_neq_by_element [of "CHR ''E''"]) (simp_all add: default_tech_def)
  moreover have "concat (map option_tokens (technique_checkboxes True False True True True True)) = []"
    "concat (map option_tokens (tl (technique_checkboxes True False True True True True))) = []"
    "\<not> (\<exists>e \<in> set (technique_checkboxes True False True True True True). option_is_target e)"
    "\<not> (\<exists>e \<in> set (tl (technique_checkboxes True False True True True True)). option_is_target e)"
    by (simp_all add: technique_checkboxes_def tokens_tech_checkbox)
  ultimately show ?thesis
    by (simp add: build_eq [OF example_base] technique_tokens_def default_tech_checkbox)
qed

text \<open>
  Claim C5, amended to the options the option loop handles whose value, when it is a
  string, is not empty. Such an option with a value other than its default appends the bare
  flag when it is a check box, one token \<open>flag=value\<close> when its flag starts with two dashes,
  and otherwise the flag and the value as two tokens.
\<close>

theorem non_default_option_shape:
  assumes "\<not> is_technique_checkbox (wid, d)" and "\<not> is_default d"
    and "is_checkbox (widget d) \<or> fst (read_widget d) \<noteq> VStr []"
  shows "loop_body (wid, d) (command, tgt) =
     (command @
        (if is_checkbox (widget d) then [flag d]
         else if startswith (flag d) ''--'' then [flag d @ ''='' @ py_format (fst (read_widget d))]
         else [flag d, py_format (fst (read_widget d))]),
      tgt \<or> flag d \<in> set target_options)"
proof (cases "widget d")
  case (Checkbox checked)
  with assms show ?thesis
    by (simp add: loop_body_eq option_tokens_def option_is_target_def emitted_def is_default_def
        read_widget_def append_option_def Let_def)
next
  case Unimplemented
  with assms(2) show ?thesis
    by (simp add: is_default_def read_widget_def)
qed (use assms in \<open>auto simp: loop_body_eq option_tokens_def option_is_target_def emitted_def
        is_default_def read_widget_def append_option_def Let_def\<close>)

theorem non_default_option_shape_witness:
  "loop_body (req_random_agent True) ([''sqlmap''], False) = ([''sqlmap'', ''--random-agent''], False)
   \<and> loop_body (req_timeout 45) ([''sqlmap''], False) = ([''sqlmap'', ''--timeout=45''], False)
   \<and> loop_body (target_url ''http://x/a.php?id=1'') ([''sqlmap''], False) =
       ([''sqlmap'', ''-u'', ''http://x/a.php?id=1''], True)"
proof -
  have a: "\<not> is_technique_checkbox (''req_random_agent'', snd (req_random_agent True))"
    "\<not> is_default (snd (req_random_agent True))"
    "is_checkbox (widget (snd (req_random_agent True))) \<or> fst (read_widget (snd (req_random_agent True))) \<noteq> VStr []"
    by (simp_all add: entry_defs is_technique_checkbox_def is_default_def read_widget_def
        py_eq_bool_def startswith_def)
  have b: "\<not> is_technique_checkbox (''req_timeout'', snd (req_timeout 45))"
    "\<not> is_default (snd (req_timeout 45))"
    "is_checkbox (widget (snd (req_timeout 45))) \<or> fst (read_widget (snd (req_timeout 45))) \<noteq> VStr []"
    by (simp_all add: entry_defs is_technique_checkbox_def is_default_def read_widget_def
        startswith_def str_int_nonempty)
  have c: "\<not> is_technique_checkbox (''target_url'', snd (target_url ''http://x/a.php?id=1''))"
    "\<not> is_default (snd (target_url ''http://x/a.php?id=1''))"
    "is_checkbox (widget (snd (target_url ''http://x/a.php?id=1'')))
       \<or> fst (read_widget (snd (target_url ''http://x/a.php?id=1''))) \<noteq> VStr []"
    by (simp_all add: entry_defs is_technique_checkbox_def is_default_def read_widget_def
        startswith_def strip_example_url Let_def)
  show ?thesis
    using non_default_option_shape [OF a, of "[''sqlmap'']" False]
      non_default_option_shape [OF b, of "[''sqlmap'']" False]
      non_default_option_shape [OF c, of "[''sqlmap'']" False]
    by (simp add: entry_defs read_widget_def startswith_def strip_example_url str_int_45
        target_options_def py_eq_bool_def Let_def)
qed

text \<open>
  The claim as stated for every option with a value other than its default fails twice: the
  CSV delimiter cleared to the empty string differs from its default \<open>,\<close> and appends
  nothing (the loop's guard on empty values), and a technique box that is unchecked differs
  from its default and appends no bare flag (the loop passes over technique boxes).
\<close>

theorem non_default_option_shape_counterexample:
  "\<not> is_default (snd (gen_csv_del []))
   \<and> loop_body (gen_csv_del []) ([''sqlmap''], False) = ([''sqlmap''], False)
   \<and> build_sqlmap_command example_env ''sqlmap'' [gen_csv_del []] = Inr (Some [''sqlmap''], False)
   \<and> \<not> is_default (snd (tech_checkbox ''B'' False))
   \<and> loop_body (tech_checkbox ''B'' False) ([''sqlmap''], False) = ([''sqlmap''], False)
   \<and> build_sqlmap_command example_env ''sqlmap'' [tech_checkbox ''B'' False] =
       Inr (Some [''sqlmap''], False)"
proof -
  have "py_strip [] = []"
    by (simp add: py_strip_def)
  moreover have "\<not> is_default (snd (gen_csv_del []))"
    by (simp add: is_default_def read_widget_def gen_csv_del_def add_widget_option_def
        no_kwargs_def py_strip_def Let_def)
  moreover have "tech_string [gen_csv_del []] = []" "tech_string [tech_checkbox ''B'' False] = []"
    by (simp_all add: tech_string_def entry_defs startswith_def)
  ultimately show ?thesis
    by (simp add: build_eq [OF example_base] loop_body_eq technique_tokens_def
        tokens_gen_csv_del tokens_tech_checkbox default_tech_checkbox)
qed





section \<open>Properties of the runner thread\<close>

lemma read_loop_outputs:
  "read_loop i rs = Some (out, x) \<Longrightarrow> list_all is_output out \<and> (\<forall>s \<in> set out. signal_id s = i)"
proof (induction rs arbitrary: out)
  case Nil
  then show ?case by simp
next
  case (Cons r rs)
  then show ?case
    by (cases r) (auto split: if_splits option.splits)
qed

lemma read_loop_ends: "\<exists>s \<in> set rs. ends_loop s \<Longrightarrow> read_loop i rs \<noteq> None"
proof (induction rs)
  case Nil
  then show ?case by simp
next
  case (Cons r rs)
  show ?case
  proof (cases "ends_loop r")
    case True
    then show ?thesis
      by (cases r) auto
  next
    case False
    with Cons.prems have "\<exists>s \<in> set rs. ends_loop s"
      by simp
    then have "read_loop i rs \<noteq> None"
      by (rule Cons.IH)
    then show ?thesis
      by (cases r) (auto split: option.splits)
  qed
qed

lemma read_loop_exit: "map_option snd (read_loop i rs) = map_option snd (read_loop j rs)"
proof (induction rs)
  case Nil
  then show ?case by simp
next
  case (Cons r rs)
  then show ?case
    by (cases r) (auto split: option.splits)
qed

lemma read_loop_exit_0: "read_loop i rs = Some (out, x) \<Longrightarrow> map_option snd (read_loop 0 rs) = Some x"
  using read_loop_exit [of 0 rs i] by simp

lemma run_shape:
  assumes "run self env = Some (sigs, err, self')" and "command_list self \<noteq> []"
  shows "err = None \<and> self' = self\<lparr>process := None, is_running := False\<rparr>
       \<and> (\<exists>outs. list_all is_output outs \<and> (\<forall>s \<in> set outs. signal_id s = identifier_no self)
            \<and> (if run_raises env
                then \<exists>msg. sigs = outs @ [processError (identifier_no self) msg,
                                            processFinished (identifier_no self) (- 1)]
                else if stopped_alive env
                then \<exists>outs'. outs = outs' @ [outputTextAvailable (identifier_no self) cancelled_message]
                       \<and> sigs = outs @ [processFinished (identifier_no self) (final_wait env)]
                else \<exists>rc. sigs = outs @ [processFinished (identifier_no self) rc]))"
proof -
  let ?i = "identifier_no self"
  let ?started = "[outputTextAvailable ?i (command_message (command_list self))]"
  show ?thesis
  proof (cases "spawn env")
    case Spawn_FileNotFoundError
    with assms obtain exe rest where "command_list self = exe # rest"
      by (cases "command_list self") auto
    with assms Spawn_FileNotFoundError show ?thesis
      by (auto simp: run_def Let_def run_raises_def intro!: exI [of _ ?started])
  next
    case (Spawn_Exception e)
    with assms show ?thesis
      by (auto simp: run_def Let_def run_raises_def intro!: exI [of _ ?started])
  next
    case Spawned
    with assms obtain out x where loop: "read_loop ?i (reads env) = Some (out, x)"
      by (auto simp: run_def Let_def split: option.splits)
    then have outs: "list_all is_output out" "\<forall>s \<in> set out. signal_id s = ?i"
      using read_loop_outputs by blast+
    from loop obtain out0 where loop0: "read_loop 0 (reads env) = Some (out0, x)"
      using read_loop_exit_0 [OF loop] by (cases "read_loop 0 (reads env)") auto
    show ?thesis
    proof (cases x)
      case (Exited rc)
      with assms Spawned loop loop0 outs show ?thesis
        by (auto simp: run_def Let_def run_raises_def stopped_alive_def
            intro!: exI [of _ "?started @ out"])
    next
      case (Raised e)
      with assms Spawned loop loop0 outs show ?thesis
        by (auto simp: run_def Let_def run_raises_def stopped_alive_def
            intro!: exI [of _ "?started @ out"])
    next
      case Stop_seen
      show ?thesis
      proof (cases "poll_after_loop env")
        case (Some rc)
        with assms Spawned loop loop0 outs Stop_seen show ?thesis
          by (auto simp: run_def Let_def run_raises_def stopped_alive_def
              intro!: exI [of _ "?started @ out"])
      next
        case None
        show ?thesis
        proof (cases "run_raises env")
          case True
          with assms Spawned loop loop0 outs Stop_seen None show ?thesis
            by (auto simp: run_def Let_def run_raises_def stopped_alive_def
                split: wait_outcome.splits option.splits
                intro!: exI [of _ "?started @ out"])
        next
          case False
          then have alive: "stopped_alive env"
            using Spawned loop0 Stop_seen None by (simp add: stopped_alive_def)
          have "sigs = ?started @ out @ [outputTextAvailable ?i cancelled_message,
                  processFinished ?i (final_wait env)]"
            using assms False Spawned loop loop0 Stop_seen None
            by (auto simp: run_def Let_def run_raises_def
                split: wait_outcome.splits option.splits)
          moreover have "err = None" "self' = self\<lparr>process := None, is_running := False\<rparr>"
            using assms False Spawned loop loop0 Stop_seen None
            by (auto simp: run_def Let_def run_raises_def
                split: wait_outcome.splits option.splits)
          ultimately show ?thesis
            using False alive outs
            by (auto intro!: exI [of _ "?started @ out @ [outputTextAvailable ?i cancelled_message]"])
        qed
      qed
    qed
  qed
qed


lemma outputs_only:
  "list_all is_output outs \<Longrightarrow> filter is_finished outs = [] \<and> filter is_error outs = []"
  by (induction outs) (auto elim: is_output.elims)

lemma run_returns:
  assumes "(\<exists>s \<in> set (reads env). ends_loop s) \<or> spawn env \<noteq> Spawned"
  shows "run self env \<noteq> None"
proof (cases "spawn env")
  case Spawned
  with assms have "read_loop (identifier_no self) (reads env) \<noteq> None"
    by (simp add: read_loop_ends)
  with Spawned show ?thesis
    by (auto simp: run_def Let_def
        split: option.splits loop_exit.splits wait_outcome.splits)
qed (auto simp: run_def Let_def split: list.splits)

text \<open>
  Claim C1, amended. \<open>run()\<close> returns whenever the spawn fails or the loop meets a stop, the
  end of the stream of an exited child, or an exception. When it returns, no exception
  leaves it, and the signals are outputs followed by the terminal signals: when the spawn, a
  read or the ending of the child raises, \<open>processError\<close> and then \<open>processFinished\<close> with code
  -1; otherwise \<open>processFinished\<close> alone. So \<open>processFinished\<close> is emitted exactly once and
  last, \<open>processError\<close> once in the runs that raise and never in the others, and every signal
  carries the identifier of the thread.
\<close>

theorem run_terminal_notifications:
  assumes "command_list self \<noteq> []"
  shows "((\<exists>s \<in> set (reads env). ends_loop s) \<or> spawn env \<noteq> Spawned \<longrightarrow> run self env \<noteq> None)
       \<and> (\<forall>sigs err self'. run self env = Some (sigs, err, self') \<longrightarrow>
            err = None
          \<and> (\<exists>outs. list_all is_output outs
               \<and> (if run_raises env
                   then \<exists>msg. sigs = outs @ [processError (identifier_no self) msg,
                                               processFinished (identifier_no self) (- 1)]
                   else \<exists>rc. sigs = outs @ [processFinished (identifier_no self) rc]))
          \<and> length (filter is_finished sigs) = 1
          \<and> is_finished (last sigs)
          \<and> length (filter is_error sigs) = (if run_raises env then 1 else 0)
          \<and> (\<forall>s \<in> set sigs. signal_id s = identifier_no self))"
proof -
  have "err = None
          \<and> (\<exists>outs. list_all is_output outs
               \<and> (if run_raises env
                   then \<exists>msg. sigs = outs @ [processError (identifier_no self) msg,
                                               processFinished (identifier_no self) (- 1)]
                   else \<exists>rc. sigs = outs @ [processFinished (identifier_no self) rc]))
          \<and> length (filter is_finished sigs) = 1 \<and> is_finished (last sigs)
          \<and> length (filter is_error sigs) = (if run_raises env then 1 else 0)
          \<and> (\<forall>s \<in> set sigs. signal_id s = identifier_no self)"
    if returned: "run self env = Some (sigs, err, self')" for sigs err self'
  proof -
    from run_shape [OF returned assms] obtain outs where err: "err = None"
      and outs: "list_all is_output outs" "\<forall>s \<in> set outs. signal_id s = identifier_no self"
      and shape: "if run_raises env
                then \<exists>msg. sigs = outs @ [processError (identifier_no self) msg,
                                            processFinished (identifier_no self) (- 1)]
                else if stopped_alive env
                then \<exists>outs'. outs = outs' @ [outputTextAvailable (identifier_no self) cancelled_message]
                       \<and> sigs = outs @ [processFinished (identifier_no self) (final_wait env)]
                else \<exists>rc. sigs = outs @ [processFinished (identifier_no self) rc]"
      by blast
    from shape have shape': "if run_raises env
                   then \<exists>msg. sigs = outs @ [processError (identifier_no self) msg,
                                               processFinished (identifier_no self) (- 1)]
                   else \<exists>rc. sigs = outs @ [processFinished (identifier_no self) rc]"
      by (auto split: if_splits)
    have counts: "length (filter is_finished sigs) = 1 \<and> is_finished (last sigs)
          \<and> length (filter is_error sigs) = (if run_raises env then 1 else 0)
          \<and> (\<forall>s \<in> set sigs. signal_id s = identifier_no self)"
      using shape' outs outputs_only [OF outs(1)] by (auto split: if_splits)
    from err outs(1) shape' counts show ?thesis
      by blast
  qed
  then show ?thesis
    using run_returns [of env self] by blast
qed

lemma example_thread_eq:
  "example_thread = \<lparr>command_list = [''sqlmap'', ''-u'', ''http://x/a.php?id=1''],
     process = None, is_running = True, identifier_no = 0\<rparr>"
  by (simp add: example_thread_def init_thread_def)

lemma example_run_eq:
  "run example_thread example_run =
     Some ([outputTextAvailable 0 (command_message [''sqlmap'', ''-u'', ''http://x/a.php?id=1'']),
            outputTextAvailable 0 ''line'', processFinished 0 0],
           None, example_thread\<lparr>process := None, is_running := False\<rparr>)"
  by (simp add: run_def example_run_def example_thread_eq)

text \<open>
  The premises hold of the run in which the child prints one line and exits.
\<close>

theorem run_terminal_notifications_witness:
  "command_list example_thread \<noteq> []
   \<and> list_ex ends_loop (reads example_run)
   \<and> run example_thread example_run =
       Some ([outputTextAvailable 0 (command_message [''sqlmap'', ''-u'', ''http://x/a.php?id=1'']),
              outputTextAvailable 0 ''line'', processFinished 0 0],
             None, example_thread\<lparr>process := None, is_running := False\<rparr>)
   \<and> \<not> run_raises example_run"
proof -
  have cmd: "command_list example_thread \<noteq> []"
    by (simp add: example_thread_eq)
  have "\<not> run_raises example_run"
    by (simp add: run_raises_def example_run_def)
  moreover have "list_ex ends_loop (reads example_run)"
    by (simp add: example_run_def)
  ultimately show ?thesis
    using run_terminal_notifications [OF cmd, of example_run] example_run_eq cmd
    by simp
qed

text \<open>
  The claim that never both terminal signals are delivered fails when the executable is not
  found: \<open>processError\<close> is followed by \<open>processFinished\<close> with code -1.
\<close>

theorem both_terminal_signals_counterexample:
  "run example_thread example_not_found =
     Some ([outputTextAvailable 0 (command_message [''sqlmap'', ''-u'', ''http://x/a.php?id=1'']),
            processError 0 (not_found_message ''sqlmap''),
            processFinished 0 (- 1)],
           None, example_thread\<lparr>process := None, is_running := False\<rparr>)"
  by (simp add: run_def example_not_found_def example_run_def example_thread_eq)

text \<open>
  Claim C9, amended. In a run that returns, the signals of \<open>run()\<close> are a list of outputs
  followed by the terminal signals, so no output comes after a terminal signal. When the
  loop is left by a stop: if the child is then alive and is ended without an exception, the
  notice of the cancellation is the last output and \<open>processFinished\<close> follows it at once; if
  the child is then alive and ending it raises, \<open>processError\<close> and \<open>processFinished\<close> with
  code -1 follow the outputs of the loop; if the child has exited, \<open>processFinished\<close> with its
  exit code follows the outputs of the loop.
\<close>

theorem run_notification_order:
  assumes "run self env = Some (sigs, err, self')" and "command_list self \<noteq> []"
  shows "(\<exists>outs terminal. sigs = outs @ terminal \<and> list_all is_output outs \<and> terminal \<noteq> []
            \<and> list_all (\<lambda>s. \<not> is_output s) terminal)
       \<and> (\<forall>out. spawn env = Spawned
                  \<and> read_loop (identifier_no self) (reads env) = Some (out, Stop_seen) \<longrightarrow>
            list_all is_output out
          \<and> (poll_after_loop env = None \<and> \<not> termination_raises env \<longrightarrow>
               sigs = outputTextAvailable (identifier_no self) (command_message (command_list self))
                        # out @ [outputTextAvailable (identifier_no self) cancelled_message,
                                 processFinished (identifier_no self) (final_wait env)])
          \<and> (poll_after_loop env = None \<and> termination_raises env \<longrightarrow>
               (\<exists>msg. sigs = outputTextAvailable (identifier_no self) (command_message (command_list self))
                        # out @ [processError (identifier_no self) msg,
                                 processFinished (identifier_no self) (- 1)]))
          \<and> (\<forall>rc. poll_after_loop env = Some rc \<longrightarrow>
               sigs = outputTextAvailable (identifier_no self) (command_message (command_list self))
                        # out @ [processFinished (identifier_no self) rc]))"
proof -
  from run_shape [OF assms] obtain outs where outs: "list_all is_output outs"
    and shape: "if run_raises env
                then \<exists>msg. sigs = outs @ [processError (identifier_no self) msg,
                                            processFinished (identifier_no self) (- 1)]
                else if stopped_alive env
                then \<exists>outs'. outs = outs' @ [outputTextAvailable (identifier_no self) cancelled_message]
                       \<and> sigs = outs @ [processFinished (identifier_no self) (final_wait env)]
                else \<exists>rc. sigs = outs @ [processFinished (identifier_no self) rc]"
    by blast
  have first: "\<exists>outs terminal. sigs = outs @ terminal \<and> list_all is_output outs \<and> terminal \<noteq> []
            \<and> list_all (\<lambda>s. \<not> is_output s) terminal"
  proof (cases "run_raises env")
    case True
    with shape obtain msg where "sigs = outs @ [processError (identifier_no self) msg,
        processFinished (identifier_no self) (- 1)]"
      by auto
    with outs show ?thesis
      by (intro exI [of _ outs] exI [of _ "[processError (identifier_no self) msg,
        processFinished (identifier_no self) (- 1)]"]) simp
  next
    case False
    with shape obtain rc where "sigs = outs @ [processFinished (identifier_no self) rc]"
      by (auto split: if_splits)
    with outs show ?thesis
      by (intro exI [of _ outs] exI [of _ "[processFinished (identifier_no self) rc]"]) simp
  qed
  have second: "list_all is_output out
          \<and> (poll_after_loop env = None \<and> \<not> termination_raises env \<longrightarrow>
               sigs = outputTextAvailable (identifier_no self) (command_message (command_list self))
                        # out @ [outputTextAvailable (identifier_no self) cancelled_message,
                                 processFinished (identifier_no self) (final_wait env)])
          \<and> (poll_after_loop env = None \<and> termination_raises env \<longrightarrow>
               (\<exists>msg. sigs = outputTextAvailable (identifier_no self) (command_message (command_list self))
                        # out @ [processError (identifier_no self) msg,
                                 processFinished (identifier_no self) (- 1)]))
          \<and> (\<forall>rc. poll_after_loop env = Some rc \<longrightarrow>
               sigs = outputTextAvailable (identifier_no self) (command_message (command_list self))
                        # out @ [processFinished (identifier_no self) rc])"
    if spawned: "spawn env = Spawned"
      and loop: "read_loop (identifier_no self) (reads env) = Some (out, Stop_seen)" for out
  proof -
    have "list_all is_output out"
      using read_loop_outputs [OF loop] by blast
    moreover have "sigs = outputTextAvailable (identifier_no self) (command_message (command_list self))
                        # out @ [processFinished (identifier_no self) rc]"
      if "poll_after_loop env = Some rc" for rc
      using assms(1) spawned loop that by (simp add: run_def Let_def)
    moreover have "sigs = outputTextAvailable (identifier_no self) (command_message (command_list self))
                        # out @ [outputTextAvailable (identifier_no self) cancelled_message,
                                 processFinished (identifier_no self) (final_wait env)]"
      if "poll_after_loop env = None" "\<not> termination_raises env"
      using assms(1) spawned loop that
      by (auto simp: run_def Let_def termination_raises_def split: wait_outcome.splits option.splits)
    moreover have "\<exists>msg. sigs = outputTextAvailable (identifier_no self) (command_message (command_list self))
                        # out @ [processError (identifier_no self) msg,
                                 processFinished (identifier_no self) (- 1)]"
      if "poll_after_loop env = None" "termination_raises env"
      using assms(1) spawned loop that
      by (auto simp: run_def Let_def termination_raises_def split: wait_outcome.splits option.splits)
    ultimately show ?thesis
      by blast
  qed
  from first second show ?thesis
    by blast
qed

lemma example_stopped_alive_eq:
  "run example_thread example_stopped_alive =
     Some ([outputTextAvailable 0 (command_message [''sqlmap'', ''-u'', ''http://x/a.php?id=1'']),
            outputTextAvailable 0 ''line'',
            outputTextAvailable 0 cancelled_message,
            processFinished 0 (- 15)],
           None, example_thread\<lparr>process := None, is_running := False\<rparr>)"
  by (simp add: run_def example_stopped_alive_def example_run_def example_thread_eq)

lemma example_stopped_exited_eq:
  "run example_thread example_stopped_exited =
     Some ([outputTextAvailable 0 (command_message [''sqlmap'', ''-u'', ''http://x/a.php?id=1'']),
            outputTextAvailable 0 ''line'',
            processFinished 0 0],
           None, example_thread\<lparr>process := None, is_running := False\<rparr>)"
  by (simp add: run_def example_stopped_exited_def example_run_def example_thread_eq)

lemma example_stopped_wait_raises_eq:
  "run example_thread example_stopped_wait_raises =
     Some ([outputTextAvailable 0 (command_message [''sqlmap'', ''-u'', ''http://x/a.php?id=1'']),
            outputTextAvailable 0 ''line'',
            processError 0 (unexpected_message ''EINTR''),
            processFinished 0 (- 1)],
           None, example_thread\<lparr>process := None, is_running := False\<rparr>)"
  by (simp add: run_def example_stopped_wait_raises_def example_run_def example_thread_eq)

text \<open>
  The premises hold of three runs left by a stop after one line: the child alive and ended in
  time, the child alive and \<open>wait(timeout=2)\<close> raising, the child exited with code 0.
\<close>

theorem run_notification_order_witness:
  "command_list example_thread \<noteq> []
   \<and> spawn example_stopped_alive = Spawned
   \<and> read_loop (identifier_no example_thread) (reads example_stopped_alive) =
       Some ([outputTextAvailable 0 ''line''], Stop_seen)
   \<and> poll_after_loop example_stopped_alive = None
   \<and> \<not> termination_raises example_stopped_alive
   \<and> run example_thread example_stopped_alive =
     Some ([outputTextAvailable 0 (command_message [''sqlmap'', ''-u'', ''http://x/a.php?id=1'']),
            outputTextAvailable 0 ''line'',
            outputTextAvailable 0 cancelled_message,
            processFinished 0 (- 15)],
           None, example_thread\<lparr>process := None, is_running := False\<rparr>)
   \<and> spawn example_stopped_wait_raises = Spawned
   \<and> read_loop (identifier_no example_thread) (reads example_stopped_wait_raises) =
       Some ([outputTextAvailable 0 ''line''], Stop_seen)
   \<and> poll_after_loop example_stopped_wait_raises = None
   \<and> termination_raises example_stopped_wait_raises
   \<and> run example_thread example_stopped_wait_raises =
     Some ([outputTextAvailable 0 (command_message [''sqlmap'', ''-u'', ''http://x/a.php?id=1'']),
            outputTextAvailable 0 ''line'',
            processError 0 (unexpected_message ''EINTR''),
            processFinished 0 (- 1)],
           None, example_thread\<lparr>process := None, is_running := False\<rparr>)
   \<and> spawn example_stopped_exited = Spawned
   \<and> read_loop (identifier_no example_thread) (reads example_stopped_exited) =
       Some ([outputTextAvailable 0 ''line''], Stop_seen)
   \<and> poll_after_loop example_stopped_exited = Some 0
   \<and> run example_thread example_stopped_exited =
     Some ([outputTextAvailable 0 (command_message [''sqlmap'', ''-u'', ''http://x/a.php?id=1'']),
            outputTextAvailable 0 ''line'',
            processFinished 0 0],
           None, example_thread\<lparr>process := None, is_running := False\<rparr>)"
proof -
  have cmd: "command_list example_thread \<noteq> []"
    by (simp add: example_thread_eq)
  have alive: "spawn example_stopped_alive = Spawned
      \<and> read_loop (identifier_no example_thread) (reads example_stopped_alive) =
          Some ([outputTextAvailable 0 ''line''], Stop_seen)
      \<and> poll_after_loop example_stopped_alive = None
      \<and> \<not> termination_raises example_stopped_alive"
    by (simp add: example_stopped_alive_def example_run_def example_thread_eq
        termination_raises_def)
  have raises: "spawn example_stopped_wait_raises = Spawned
      \<and> read_loop (identifier_no example_thread) (reads example_stopped_wait_raises) =
          Some ([outputTextAvailable 0 ''line''], Stop_seen)
      \<and> poll_after_loop example_stopped_wait_raises = None
      \<and> termination_raises example_stopped_wait_raises"
    by (simp add: example_stopped_wait_raises_def example_run_def example_thread_eq
        termination_raises_def)
  have exited: "spawn example_stopped_exited = Spawned
      \<and> read_loop (identifier_no example_thread) (reads example_stopped_exited) =
          Some ([outputTextAvailable 0 ''line''], Stop_seen)
      \<and> poll_after_loop example_stopped_exited = Some 0"
    by (simp add: example_stopped_exited_def example_run_def example_thread_eq)
  note order_alive = run_notification_order [OF example_stopped_alive_eq cmd]
  note order_raises = run_notification_order [OF example_stopped_wait_raises_eq cmd]
  note order_exited = run_notification_order [OF example_stopped_exited_eq cmd]
  have "list_all is_output [outputTextAvailable 0 ''line'']"
    using order_alive alive by blast
  moreover have "\<exists>msg. [outputTextAvailable 0 (command_message [''sqlmap'', ''-u'', ''http://x/a.php?id=1'']),
            outputTextAvailable 0 ''line'',
            processError 0 (unexpected_message ''EINTR''),
            processFinished 0 (- 1)] =
        outputTextAvailable (identifier_no example_thread) (command_message (command_list example_thread))
          # [outputTextAvailable 0 ''line'']
          @ [processError (identifier_no example_thread) msg,
             processFinished (identifier_no example_thread) (- 1)]"
    using order_raises raises by blast
  moreover have "[outputTextAvailable 0 (command_message [''sqlmap'', ''-u'', ''http://x/a.php?id=1'']),
            outputTextAvailable 0 ''line'',
            processFinished 0 0] =
        outputTextAvailable (identifier_no example_thread) (command_message (command_list example_thread))
          # [outputTextAvailable 0 ''line'']
          @ [processFinished (identifier_no example_thread) 0]"
    using order_exited exited by blast
  ultimately show ?thesis
    using cmd alive raises exited
      example_stopped_alive_eq example_stopped_wait_raises_eq example_stopped_exited_eq
    by simp
qed

text \<open>
  The claim that a stop requested while the stream is open always yields the notice fails.
  When the child has exited by itself before \<open>stop()\<close> is called and before the loop has read
  the end of the stream, \<open>stop()\<close> emits nothing, the loop is left by the stop, and
  \<open>processFinished\<close> follows the last line without a notice. When the child is alive and
  \<open>wait(timeout=2)\<close> raises, \<open>processError\<close> follows the last line without a notice.
\<close>

theorem stopped_without_notice_counterexample:
  "stop (example_thread\<lparr>process := Some (Popen (Some 0))\<rparr>) example_stop_env =
     ([], None, example_thread\<lparr>process := Some (Popen (Some 0)), is_running := False\<rparr>)
   \<and> list_ex (\<lambda>s. s = Stopped) (reads example_stopped_exited)
   \<and> run example_thread example_stopped_exited =
     Some ([outputTextAvailable 0 (command_message [''sqlmap'', ''-u'', ''http://x/a.php?id=1'']),
            outputTextAvailable 0 ''line'',
            processFinished 0 0],
           None, example_thread\<lparr>process := None, is_running := False\<rparr>)
   \<and> list_ex (\<lambda>s. s = Stopped) (reads example_stopped_wait_raises)
   \<and> poll_after_loop example_stopped_wait_raises = None
   \<and> run example_thread example_stopped_wait_raises =
     Some ([outputTextAvailable 0 (command_message [''sqlmap'', ''-u'', ''http://x/a.php?id=1'']),
            outputTextAvailable 0 ''line'',
            processError 0 (unexpected_message ''EINTR''),
            processFinished 0 (- 1)],
           None, example_thread\<lparr>process := None, is_running := False\<rparr>)"
  by (simp add: run_def stop_def example_stopped_exited_def example_stopped_wait_raises_def
      example_run_def example_thread_eq)

section \<open>Properties of the main window\<close>

lemma stop_current_counter:
  "thread_counter (snd (snd (stop_current_sqlmap_instance env g))) = thread_counter g"
  by (auto simp: stop_current_sqlmap_instance_def split: option.splits prod.splits)

lemma start_counter:
  "thread_counter (start_sqlmap_instance cmd w g) = thread_counter g + 1"
  by (simp add: start_sqlmap_instance_def init_thread_def)

lemma slot_counter:
  "thread_counter (on_process_finished i rc g) = thread_counter g"
  "thread_counter (on_process_error i msg g) = thread_counter g"
  by (simp_all add: on_process_finished_def on_process_error_def)

lemma step_counter: "thread_counter g \<le> thread_counter (gui_step ev g)"
  by (cases ev)
    (simp_all add: start_counter on_process_finished_def on_process_error_def stop_current_counter)

lemma counter_mono: "thread_counter g \<le> thread_counter (fold gui_step evs g)"
proof (induction evs arbitrary: g)
  case Nil
  then show ?case by simp
next
  case (Cons ev evs)
  have "thread_counter g \<le> thread_counter (gui_step ev g)"
    by (rule step_counter)
  also have "\<dots> \<le> thread_counter (fold gui_step evs (gui_step ev g))"
    by (rule Cons.IH)
  finally show ?case by simp
qed

lemma allocated_bounds:
  "h \<in> set (allocated evs g) \<Longrightarrow> thread_counter g \<le> h \<and> h < thread_counter (fold gui_step evs g)"
proof (induction evs g rule: allocated.induct)
  case (1 g)
  then show ?case by simp
next
  case (2 cmd w evs g)
  let ?g = "gui_step (Start cmd w) g"
  have next_counter: "thread_counter ?g = thread_counter g + 1"
    by (simp add: start_counter)
  show ?case
  proof (cases "h = thread_counter g")
    case True
    have "thread_counter ?g \<le> thread_counter (fold gui_step evs ?g)"
      by (rule counter_mono)
    with True next_counter show ?thesis by simp
  next
    case False
    with "2.prems" have "h \<in> set (allocated evs ?g)"
      by (simp add: init_thread_def)
    then have "thread_counter ?g \<le> h \<and> h < thread_counter (fold gui_step evs ?g)"
      by (rule "2.IH")
    with next_counter show ?thesis by simp
  qed
qed (simp_all add: slot_counter stop_current_counter)

lemma allocated_sorted: "sorted_wrt (<) (allocated evs g)"
proof (induction evs g rule: allocated.induct)
  case (1 g)
  then show ?case by simp
next
  case (2 cmd w evs g)
  have "thread_counter g < h" if "h \<in> set (allocated evs (gui_step (Start cmd w) g))" for h
    using allocated_bounds [OF that] by (simp add: start_counter)
  with "2.IH" show ?case
    by (simp add: init_thread_def)
qed (simp_all)

text \<open>
  Claim C7. \<open>__init__\<close> gives the new thread the current value of \<open>thread_counter\<close> and
  adds one to the counter, and nothing else writes the counter. So along any sequence of
  starts, terminal signals and stops, the identifiers given out are strictly increasing,
  hence pairwise distinct; each lies between the counter before and the counter after, and
  an identifier is not given out again after its instance has finished.
\<close>

theorem handles_strictly_increasing:
  "sorted_wrt (<) (allocated evs g)
   \<and> distinct (allocated evs g)
   \<and> (\<forall>h \<in> set (allocated evs g). thread_counter g \<le> h \<and> h < thread_counter (fold gui_step evs g))
   \<and> identifier_no (fst (init_thread cmd c)) = c \<and> snd (init_thread cmd c) = c + 1"
proof -
  have "distinct (allocated evs g)"
    using allocated_sorted [of evs g] strict_sorted_iff by blast
  then show ?thesis
    using allocated_sorted allocated_bounds by (simp add: init_thread_def)
qed

theorem handles_strictly_increasing_witness:
  "allocated [Start [''sqlmap'', ''-u'', ''a''] 0, Finished 0 0, Start [''sqlmap'', ''-u'', ''b''] 1,
       Start [''sqlmap'', ''-u'', ''c''] 2] example_gui = [0, 1, 2]
   \<and> thread_counter (fold gui_step [Start [''sqlmap'', ''-u'', ''a''] 0, Finished 0 0,
       Start [''sqlmap'', ''-u'', ''b''] 1, Start [''sqlmap'', ''-u'', ''c''] 2] example_gui) = 3"
  using handles_strictly_increasing [of "[Start [''sqlmap'', ''-u'', ''a''] 0, Finished 0 0,
       Start [''sqlmap'', ''-u'', ''b''] 1, Start [''sqlmap'', ''-u'', ''c''] 2]" example_gui]
  by (simp add: example_gui_def start_sqlmap_instance_def init_thread_def on_process_finished_def
      dict_del_def)

lemma dict_set_keys:
  "map fst (dict_set k v d) = (if k \<in> fst ` set d then map fst d else map fst d @ [k])"
  by (induction d) (force split: if_splits)+

lemma find_Some_member: "find P xs = Some x \<Longrightarrow> P x \<and> x \<in> set xs"
  by (induction xs) (auto split: if_splits)

text \<open>
  Claim C8. \<open>stop()\<close> on a thread whose process is gone (\<open>None\<close> after \<open>run()\<close> has ended) or
  has exited emits no signal and raises nothing; it only clears \<open>_is_running\<close>. The stop
  button does the same: when no running instance owns the current tab, or the one that does
  has a thread that is not running or whose process is gone or has exited, no signal is
  emitted, nothing is raised, and the registered instances and the counter are unchanged.
\<close>

theorem stop_terminal_noop:
  "(process self = None \<or> (\<exists>rc. process self = Some (Popen (Some rc)))
      \<longrightarrow> stop self env = ([], None, self\<lparr>is_running := False\<rparr>))
   \<and> ((\<forall>e \<in> set (running_processes g).
          Some (output_widget (snd e)) = tab_widget (output_tabs g) (current_index g)
          \<longrightarrow> \<not> isRunning (snd e) \<or> process (thread (snd e)) = None
              \<or> (\<exists>rc. process (thread (snd e)) = Some (Popen (Some rc))))
      \<longrightarrow> fst (stop_current_sqlmap_instance env g) = []
          \<and> fst (snd (stop_current_sqlmap_instance env g)) = None
          \<and> map fst (running_processes (snd (snd (stop_current_sqlmap_instance env g))))
              = map fst (running_processes g)
          \<and> thread_counter (snd (snd (stop_current_sqlmap_instance env g))) = thread_counter g)"
proof -
  have thread_level: "stop self env = ([], None, self\<lparr>is_running := False\<rparr>)"
    if "process self = None \<or> (\<exists>rc. process self = Some (Popen (Some rc)))" for self
    using that by (auto simp: stop_def Let_def)
  have gui_level: "fst (stop_current_sqlmap_instance env g) = []
          \<and> fst (snd (stop_current_sqlmap_instance env g)) = None
          \<and> map fst (running_processes (snd (snd (stop_current_sqlmap_instance env g))))
              = map fst (running_processes g)
          \<and> thread_counter (snd (snd (stop_current_sqlmap_instance env g))) = thread_counter g"
    if terminal: "\<forall>e \<in> set (running_processes g).
          Some (output_widget (snd e)) = tab_widget (output_tabs g) (current_index g)
          \<longrightarrow> \<not> isRunning (snd e) \<or> process (thread (snd e)) = None
              \<or> (\<exists>rc. process (thread (snd e)) = Some (Popen (Some rc)))"
  proof (cases "find (\<lambda>(id_val, d). Some (output_widget d) = tab_widget (output_tabs g) (current_index g))
                  (running_processes g)")
    case None
    then show ?thesis
      by (simp add: stop_current_sqlmap_instance_def)
  next
    case (Some e)
    obtain i d where e: "e = (i, d)"
      by (cases e)
    from Some e have found: "(i, d) \<in> set (running_processes g)"
      "Some (output_widget d) = tab_widget (output_tabs g) (current_index g)"
      using find_Some_member [OF Some] by auto
    with terminal have "\<not> isRunning d \<or> process (thread d) = None
        \<or> (\<exists>rc. process (thread d) = Some (Popen (Some rc)))"
      by fastforce
    then consider "\<not> isRunning d"
      | "isRunning d" "process (thread d) = None \<or> (\<exists>rc. process (thread d) = Some (Popen (Some rc)))"
      by blast
    then show ?thesis
    proof cases
      case 1
      with Some e show ?thesis
        by (simp add: stop_current_sqlmap_instance_def)
    next
      case 2
      moreover have "i \<in> fst ` set (running_processes g)"
        using found(1) by force
      ultimately show ?thesis
        using Some e thread_level [of "thread d"]
        by (simp add: stop_current_sqlmap_instance_def dict_set_keys)
    qed
  qed
  from thread_level gui_level show ?thesis
    by blast
qed

theorem stop_terminal_noop_witness:
  "stop (example_thread\<lparr>process := Some (Popen (Some 0))\<rparr>) example_stop_env =
     ([], None, example_thread\<lparr>process := Some (Popen (Some 0)), is_running := False\<rparr>)
   \<and> stop_current_sqlmap_instance example_stop_env
       (example_gui\<lparr>running_processes :=
          [(0, \<lparr>thread = example_thread\<lparr>process := Some (Popen (Some 0))\<rparr>, isRunning = True,
                output_widget = 7\<rparr>)],
          output_tabs := [7], current_index := 0\<rparr>) =
       ([], None,
        example_gui\<lparr>running_processes :=
          [(0, \<lparr>thread = example_thread\<lparr>process := Some (Popen (Some 0)), is_running := False\<rparr>,
                isRunning = True, output_widget = 7\<rparr>)],
          output_tabs := [7], current_index := 0\<rparr>)
   \<and> stop_current_sqlmap_instance example_stop_env example_gui = ([], None, example_gui)"
  using stop_terminal_noop [of "example_thread\<lparr>process := Some (Popen (Some 0))\<rparr>" example_stop_env
      example_gui]
  by (simp add: stop_def stop_current_sqlmap_instance_def example_gui_def tab_widget_def)

end
